theory Spec2Isabelle
  imports Complex_Main
begin

section \<open>Scroll choreography of js/scene.js\<close>

text \<open>
  The script maps one scroll fraction \<open>progress\<close> to the targets of a set of visual
  properties. A JavaScript Number is modelled as a real number: \<open>+\<close>, \<open>-\<close>,
  \<open>*\<close> and \<open>/\<close> are exact, so every statement below is about the arithmetic the
  script writes down, not about the last binary digit of an IEEE-754 double.
  \<open>Math.max\<close> and \<open>Math.min\<close> are \<open>max\<close> and \<open>min\<close>; \<open>Math.round\<close> rounds a
  half towards plus infinity, as \<open>round\<close> does (\<open>round x = \<lfloor>x + 1/2\<rfloor>\<close>).
  The one rule whose exact values are in question, the mask radius, is modelled with
  the rounding of every literal and every operation written out (binary64, below).
\<close>

subsection \<open>Sub-progress of the main scroll handler\<close>

text \<open>\<^verbatim>\<open>Math.max(0, Math.min(1, progress / 0.05))\<close>, scene.js line 898.\<close>

definition entranceProgress :: "real \<Rightarrow> real" where
  "entranceProgress progress = max 0 (min 1 (progress / 0.05))"

text \<open>\<^verbatim>\<open>Math.max(0, Math.min(1, (progress - 0.06) / 0.04))\<close>, line 916.\<close>

definition modelProgress :: "real \<Rightarrow> real" where
  "modelProgress progress = max 0 (min 1 ((progress - 0.06) / 0.04))"

text \<open>\<^verbatim>\<open>Math.max(0, Math.min(1, (progress - 0.12) / 0.13))\<close>, line 948.\<close>

definition headerProgress :: "real \<Rightarrow> real" where
  "headerProgress progress = max 0 (min 1 ((progress - 0.12) / 0.13))"

text \<open>
  The colour ramp of the second header, lines 1050 to 1055: a chain of conditionals
  instead of \<open>max\<close> and \<open>min\<close>.
\<close>

definition colorProgress :: "real \<Rightarrow> real" where
  "colorProgress progress =
     (if progress < 0.18 then 0
      else if progress > 0.24 then 1
      else (progress - 0.18) / 0.06)"

subsection \<open>The window contract, as the specification words it\<close>

text \<open>
  The script has no function of this name; every rule writes its window inline. This
  second definition follows the specification (section 4.1) and is what the inline
  expressions are compared with.
\<close>

record window =
  w_start :: real
  w_end :: real

definition clamp :: "real \<Rightarrow> real \<Rightarrow> real \<Rightarrow> real" where
  "clamp x lo hi = max lo (min hi x)"

definition windowProgress_spec :: "real \<Rightarrow> window \<Rightarrow> real" where
  "windowProgress_spec p w = clamp ((p - w_start w) / (w_end w - w_start w)) 0 1"

text \<open>The windows the inline expressions encode: start, and start plus the divisor.\<close>

definition entranceWindow :: window where
  "entranceWindow = \<lparr>w_start = 0, w_end = 0.05\<rparr>"

definition containerWindow :: window where
  "containerWindow = \<lparr>w_start = 0.06, w_end = 0.10\<rparr>"

definition header1Window :: window where
  "header1Window = \<lparr>w_start = 0.12, w_end = 0.25\<rparr>"

definition header2ColorWindow :: window where
  "header2ColorWindow = \<lparr>w_start = 0.18, w_end = 0.24\<rparr>"

text \<open>
  The windows of the second header's slide (lines 988 to 996) and of the logo's colour
  transition (lines 277 to 279: "20% - 28% to match circular mask").
\<close>

definition header2SlideWindow :: window where
  "header2SlideWindow = \<lparr>w_start = 0.18, w_end = 0.35\<rparr>"

definition logoWindow :: window where
  "logoWindow = \<lparr>w_start = 0.2, w_end = 0.28\<rparr>"

subsection \<open>Binary64 arithmetic\<close>

text \<open>
  A JavaScript Number is an IEEE-754 binary64 value, and every literal and every
  arithmetic operation is rounded to the nearest such value, ties to the even
  significand. Finite doubles are modelled by the real numbers they denote. \<open>binade\<close>
  finds the binary exponent \<open>e\<close> of a positive number (\<open>2^e \<le> x < 2^(e+1)\<close>) by halving
  or doubling it into the interval from 1 to 2; the 1100 steps it is given cover every
  exponent a double can have. Below \<open>2^-1022\<close> the spacing of the doubles stays
  \<open>2^-1074\<close> (subnormal numbers). Overflow to infinity (from \<open>2^1024\<close> on) is not
  modelled: no quantity of the script comes near it.
\<close>

fun binade :: "nat \<Rightarrow> real \<Rightarrow> int \<Rightarrow> int" where
  "binade 0 x e = e"
| "binade (Suc n) x e =
     (if 2 \<le> x then binade n (x / 2) (e + 1)
      else if x < 1 then binade n (x * 2) (e - 1)
      else e)"

definition exponent :: "real \<Rightarrow> int" where
  "exponent x = max (binade 1100 \<bar>x\<bar> 0) (- 1022)"

text \<open>The spacing of the doubles around \<open>x\<close>: 52 fraction bits below the exponent.\<close>

definition quantum :: "real \<Rightarrow> real" where
  "quantum x = 2 powi (exponent x - 52)"

definition roundTiesToEven :: "real \<Rightarrow> int" where
  "roundTiesToEven m =
     (let n = \<lfloor>m\<rfloor>; r = m - of_int n
      in if r < 1 / 2 then n
         else if 1 / 2 < r then n + 1
         else if even n then n else n + 1)"

text \<open>The double nearest to a real number.\<close>

definition b64 :: "real \<Rightarrow> real" where
  "b64 x = (if x = 0 then 0 else of_int (roundTiesToEven (x / quantum x)) * quantum x)"

subsection \<open>Data of the 3D scene\<close>

record vec3 =
  vx :: real
  vy :: real
  vz :: real

text \<open>
  The loaded model, as far as the script drives it: \<open>model.position\<close>,
  \<open>model.rotation.z\<close> (set by \<open>setupModel\<close>), and the sum of the angles handed to
  \<open>model.rotateOnAxis\<close> about the fixed axis \<open>(0, 1, 0)\<close>: rotations about one axis
  compose by adding their angles.
\<close>

record model3d =
  position :: vec3
  rotation_z :: real
  turned :: real

text \<open>
  The script's globals (lines 490 to 494). \<open>model\<close> is undefined until the asset has
  loaded; \<open>modelSize\<close> starts as the falsy number \<open>0\<close> (here \<open>None\<close>) and becomes a
  vector on load. \<open>finalModelPosition\<close> is always an object and
  \<open>currentScrollProgress\<close> always a number, so the guards on them are always true.
\<close>

record scene_state =
  model :: "model3d option"
  currentRotation :: real
  modelSize :: "vec3 option"
  finalModelPosition :: vec3
  currentScrollProgress :: real
  cameraZ :: real

definition initialState :: scene_state where
  "initialState =
     \<lparr>model = None, currentRotation = 0, modelSize = None,
      finalModelPosition = \<lparr>vx = 0, vy = 0, vz = 0\<rparr>,
      currentScrollProgress = 0, cameraZ = 0\<rparr>"

text \<open>\<open>modelConfig\<close>, lines 463 to 487.\<close>

definition cameraDistance_mobile :: real where "cameraDistance_mobile = 4"
definition cameraDistance_desktop :: real where "cameraDistance_desktop = 3"
definition horizontalOffset :: real where "horizontalOffset = 0.4"
definition verticalOffset :: real where "verticalOffset = - 0.05"
definition rotation_mobile :: real where "rotation_mobile = 0"
definition rotation_desktop :: real where "rotation_desktop = - 15"

text \<open>\<open>THREE.MathUtils.degToRad\<close>: degrees times \<open>Math.PI / 180\<close>.\<close>

definition degToRad :: "real \<Rightarrow> real" where
  "degToRad degrees = degrees * (pi / 180)"

subsection \<open>Model position: resize path and layout\<close>

text \<open>
  \<open>applyEntranceAnimationState\<close>, lines 642 to 657: writes \<open>model.position.y\<close>
  directly, from the stored progress, over a window that ends at \<open>0.12\<close>.
\<close>

definition applyEntranceAnimationState :: "scene_state \<Rightarrow> scene_state" where
  "applyEntranceAnimationState s =
     (case (model s, modelSize s) of
        (Some m, Some sz) \<Rightarrow>
          (let entranceProgress' = max 0 (min 1 (currentScrollProgress s / 0.12));
               currentY = vy (finalModelPosition s) - (1 - entranceProgress') * vy sz * 1.5
           in s\<lparr>model := Some (m\<lparr>position := (position m)\<lparr>vy := currentY\<rparr>\<rparr>)\<rparr>)
      | _ \<Rightarrow> s)"

text \<open>
  \<open>setupModel\<close>, lines 666 to 726. The viewport width and the centre of the model's
  bounding box (computed by the rendering library) are parameters.
\<close>

definition setupModel :: "real \<Rightarrow> vec3 \<Rightarrow> scene_state \<Rightarrow> scene_state" where
  "setupModel innerWidth center s =
     (case (model s, modelSize s) of
        (Some m, Some sz) \<Rightarrow>
          (let isMobile = innerWidth < 768;
               newPositionX = (if isMobile then vx center * 1
                               else - vx center - vx sz * horizontalOffset);
               newPositionY = - vy center + vy sz * verticalOffset;
               newPositionZ = - vz center;
               startPositionY = newPositionY - vy sz * 1.5;
               rotationDegrees = (if isMobile then rotation_mobile else rotation_desktop);
               cameraDistance = (if isMobile then cameraDistance_mobile
                                 else cameraDistance_desktop);
               maxDimension = max (max (vx sz) (vy sz)) (vz sz)
           in s\<lparr>finalModelPosition :=
                   \<lparr>vx = newPositionX, vy = newPositionY, vz = newPositionZ\<rparr>,
                 model := Some (m\<lparr>position :=
                                   \<lparr>vx = newPositionX, vy = startPositionY, vz = newPositionZ\<rparr>,
                                 rotation_z := degToRad rotationDegrees\<rparr>),
                 cameraZ := maxDimension * cameraDistance\<rparr>)
      | _ \<Rightarrow> s)"

text \<open>
  The success callback of \<open>GLTFLoader.load\<close>, lines 747 to 797: the new scene graph
  sits at the origin, unrotated; its bounding box (size and centre, after scaling) comes
  from the library. The callback ends with \<open>setupModel()\<close> and nothing else.
\<close>

definition onModelLoaded :: "vec3 \<Rightarrow> vec3 \<Rightarrow> real \<Rightarrow> scene_state \<Rightarrow> scene_state" where
  "onModelLoaded size' center innerWidth s =
     setupModel innerWidth center
       (s\<lparr>model := Some \<lparr>position = \<lparr>vx = 0, vy = 0, vz = 0\<rparr>, rotation_z = 0, turned = 0\<rparr>,
          modelSize := Some size'\<rparr>)"

text \<open>The resize listener, lines 834 to 847, for the part that moves the model.\<close>

definition onResize :: "real \<Rightarrow> vec3 \<Rightarrow> scene_state \<Rightarrow> scene_state" where
  "onResize innerWidth center s = applyEntranceAnimationState (setupModel innerWidth center s)"

subsection \<open>The main scroll handler\<close>

datatype css_color = Rgb int int int | Hex string


text \<open>
  Lines 897 to 907: the tween target for \<open>model.position.y\<close>, issued only when the
  model is there.
\<close>

definition currentY :: "scene_state \<Rightarrow> real \<Rightarrow> real option" where
  "currentY s progress =
     (case (model s, modelSize s) of
        (Some m, Some sz) \<Rightarrow>
          Some (vy (finalModelPosition s) - (1 - entranceProgress progress) * vy sz * 1.5)
      | _ \<Rightarrow> None)"

text \<open>Line 917.\<close>

definition modelScale :: "real \<Rightarrow> real" where
  "modelScale progress = (if progress < 0.15 then 0.8 else 0.8 + 0.2 * modelProgress progress)"


text \<open>Lines 949 to 955.\<close>

definition header1XPercent :: "real \<Rightarrow> real" where
  "header1XPercent progress =
     (if progress < 0.08 then 0
      else if progress > 0.3 then - 100
      else - 100 * headerProgress progress)"

text \<open>
  Lines 967 to 972, in binary64: \<open>progress\<close> is a double, the literals \<open>0.2\<close>,
  \<open>0.28\<close> and \<open>0.08\<close> are the doubles nearest to them (100 is a double), and the
  subtraction, the multiplication and the division each round their result.
\<close>

definition maskSize :: "real \<Rightarrow> real" where
  "maskSize progress =
     (if progress < b64 0.2 then 0
      else if progress > b64 0.28 then 100
      else b64 (b64 (100 * b64 (progress - b64 0.2)) / b64 0.08))"

text \<open>Lines 987 to 996.\<close>

definition header2XPercent :: "real \<Rightarrow> real" where
  "header2XPercent progress =
     (if progress < 0.18 then 100
      else if progress > 0.35 then - 100
      else (let slideProgress = (progress - 0.18) / 0.17 in 100 - 200 * slideProgress))"



text \<open>Line 1057, and the colour string of line 1059.\<close>

definition colorValue :: "real \<Rightarrow> int" where
  "colorValue progress = round (255 * (1 - colorProgress progress))"

definition header2Color :: "real \<Rightarrow> css_color" where
  "header2Color progress =
     Rgb (colorValue progress) (colorValue progress) (colorValue progress)"



text \<open>Line 1031.\<close>

definition targetRotation :: "real \<Rightarrow> real" where
  "targetRotation progress = pi * 8 * progress"

text \<open>
  What the handler writes itself (lines 874 and 1029 to 1041): the stored progress,
  and the rotation, applied as a difference to the accumulator \<open>currentRotation\<close> and
  only when the difference is larger than \<open>0.001\<close>.
\<close>

definition onUpdate :: "scene_state \<Rightarrow> real \<Rightarrow> scene_state" where
  "onUpdate s progress =
     (let s1 = s\<lparr>currentScrollProgress := progress\<rparr>
      in case model s1 of
           None \<Rightarrow> s1
         | Some m \<Rightarrow>
             (let rotationDiff = targetRotation progress - currentRotation s1
              in if \<bar>rotationDiff\<bar> > 0.001
                 then s1\<lparr>model := Some (m\<lparr>turned := turned m + rotationDiff\<rparr>),
                         currentRotation := targetRotation progress\<rparr>
                 else s1))"

text \<open>A run of the handler over the progress values delivered, oldest first.\<close>

fun deliver :: "scene_state \<Rightarrow> real list \<Rightarrow> scene_state" where
  "deliver s [] = s"
| "deliver s (progress # rest) = deliver (onUpdate s progress) rest"

subsection \<open>The logo colour trigger\<close>

text \<open>
  \<open>onUpdate\<close> of the logo trigger, lines 276 to 296. Inside the window the colour is an
  \<open>rgb(...)\<close> string built from \<open>colorValue\<close>; outside it is a hexadecimal constant.
  The source's comment reads "0 to 1 over the 8% range (20% to 28%)"; the divisor it
  writes is \<open>0.01\<close>.
\<close>

definition transitionProgress :: "real \<Rightarrow> real" where
  "transitionProgress progress = (progress - 0.2) / 0.01"

definition logoColor :: "real \<Rightarrow> css_color" where
  "logoColor progress =
     (if progress \<ge> 0.2 \<and> progress \<le> 0.28 then
        (let colorValue' = round (255 * (1 - transitionProgress progress))
         in Rgb colorValue' colorValue' colorValue')
      else if progress > 0.28 then Hex ''#000000''
      else Hex ''#ffffff'')"

subsection \<open>Tooltip timelines\<close>

text \<open>
  A timeline of the tweening library, as far as the script uses it: the play head as
  a fraction of the timeline (\<open>timeline.progress()\<close>) and the playback mode.
  \<open>gsap.timeline({paused: true})\<close> is created paused with the head at 0. \<open>play()\<close> and
  \<open>reverse()\<close> set the direction and leave the head where it is: the head then moves
  with wall-clock time, which is outside this model. \<open>progress(v)\<close> sets the head.
\<close>

datatype playback = Paused | Playing | Reversing

record timeline =
  head :: real
  playback :: playback

definition newTimeline :: timeline where
  "newTimeline = \<lparr>head = 0, playback = Paused\<rparr>"

definition play :: "timeline \<Rightarrow> timeline" where
  "play tml = tml\<lparr>playback := Playing\<rparr>"

definition reverse :: "timeline \<Rightarrow> timeline" where
  "reverse tml = tml\<lparr>playback := Reversing\<rparr>"

definition set_progress :: "real \<Rightarrow> timeline \<Rightarrow> timeline" where
  "set_progress v tml = tml\<lparr>head := v\<rparr>"

text \<open>
  \<open>createTooltipScrollTriggers\<close>, lines 1088 to 1110: the update and refresh handlers
  of one tooltip's trigger (\<open>scrub: false\<close>, "discrete enter/leave animations").
\<close>

definition tooltip_onUpdate :: "real \<Rightarrow> timeline \<Rightarrow> timeline" where
  "tooltip_onUpdate progress tml =
     (let isInTooltipRange = (progress \<ge> 0.45 \<and> progress \<le> 0.85)
      in if isInTooltipRange then play tml else reverse tml)"

definition tooltip_onRefresh :: "real \<Rightarrow> timeline \<Rightarrow> timeline" where
  "tooltip_onRefresh progress tml =
     (let isInTooltipRange = (progress \<ge> 0.35 \<and> progress \<le> 0.45)
      in if isInTooltipRange then set_progress 1 tml else set_progress 0 tml)"

text \<open>
  The same trigger registers four more callbacks "for reliability" (lines 1113 to
  1135), which the scroll library calls when the scroll position crosses the start or
  the end of the trigger's range, forwards or backwards.
\<close>

definition tooltip_onEnter :: "real \<Rightarrow> timeline \<Rightarrow> timeline" where
  "tooltip_onEnter progress tml = (if progress \<ge> 0.35 then play tml else tml)"

definition tooltip_onLeave :: "real \<Rightarrow> timeline \<Rightarrow> timeline" where
  "tooltip_onLeave progress tml = (if progress > 0.45 then reverse tml else tml)"

definition tooltip_onEnterBack :: "real \<Rightarrow> timeline \<Rightarrow> timeline" where
  "tooltip_onEnterBack progress tml =
     (if progress \<ge> 0.35 \<and> progress \<le> 0.45 then play tml else tml)"

definition tooltip_onLeaveBack :: "real \<Rightarrow> timeline \<Rightarrow> timeline" where
  "tooltip_onLeaveBack progress tml = (if progress < 0.35 then reverse tml else tml)"

text \<open>
  Which of these callbacks run for one scroll update, and in which order, is decided
  by the scroll library from the previous and the new scroll position. That decision
  is not part of the script: a scroll update reaches a tooltip trigger as the list of
  its callbacks that the library calls, in calling order, each with the trigger's
  current progress.
\<close>

datatype scroll_callback = OnUpdate | OnEnter | OnLeave | OnEnterBack | OnLeaveBack

fun tooltip_callback :: "scroll_callback \<Rightarrow> real \<Rightarrow> timeline \<Rightarrow> timeline" where
  "tooltip_callback OnUpdate progress tml = tooltip_onUpdate progress tml"
| "tooltip_callback OnEnter progress tml = tooltip_onEnter progress tml"
| "tooltip_callback OnLeave progress tml = tooltip_onLeave progress tml"
| "tooltip_callback OnEnterBack progress tml = tooltip_onEnterBack progress tml"
| "tooltip_callback OnLeaveBack progress tml = tooltip_onLeaveBack progress tml"

fun tooltip_dispatch :: "scroll_callback list \<Rightarrow> real \<Rightarrow> timeline \<Rightarrow> timeline" where
  "tooltip_dispatch [] progress tml = tml"
| "tooltip_dispatch (cb # cbs) progress tml =
     tooltip_dispatch cbs progress (tooltip_callback cb progress tml)"

text \<open>
  The earlier copy of the script (src/unnamed/part_001, lines 814 to 828) scrubs the
  head inside the main handler instead: \<open>tooltipSelectors\<close> gives each tooltip a
  \<open>trigger\<close> (0.45 and 0.47), and a timeline that does not exist yet is skipped.
\<close>

definition tooltipTriggers :: "real list" where
  "tooltipTriggers = [0.45, 0.47]"

definition scrubTooltip :: "real \<Rightarrow> real \<Rightarrow> timeline option \<Rightarrow> timeline option" where
  "scrubTooltip trigger progress timeline' =
     (case timeline' of
        None \<Rightarrow> None
      | Some tml \<Rightarrow>
          (if progress \<ge> trigger then
             (let tooltipProgress = min 1 ((progress - trigger) / 0.1)
              in Some (set_progress tooltipProgress tml))
           else Some (set_progress 0 tml)))"

subsection \<open>One scroll update of the pinned section\<close>




subsection \<open>A concrete scene\<close>

text \<open>
  A desktop viewport 1024 wide and a model whose scaled bounding box is 1 by 2 by 1
  around the origin, loaded before any scroll update; and the page around it with its
  two tooltip timelines freshly created.
\<close>

definition demoSize :: vec3 where
  "demoSize = \<lparr>vx = 1, vy = 2, vz = 1\<rparr>"

definition demoCenter :: vec3 where
  "demoCenter = \<lparr>vx = 0, vy = 0, vz = 0\<rparr>"

definition demoScene :: scene_state where
  "demoScene = onModelLoaded demoSize demoCenter 1024 initialState"


section \<open>Theorems\<close>

subsection \<open>Windows\<close>

lemma clamp_unit_bounds: "0 \<le> clamp x 0 1 \<and> clamp x 0 1 \<le> 1"
  by (simp add: clamp_def)

lemma clamp_mono: "x \<le> y \<Longrightarrow> clamp x lo hi \<le> clamp y lo hi"
  by (auto simp: clamp_def max_def min_def)

lemma windowProgress_spec_bounds:
  "0 \<le> windowProgress_spec p w \<and> windowProgress_spec p w \<le> 1"
  by (simp add: windowProgress_spec_def clamp_unit_bounds)

lemma windowProgress_spec_mono:
  assumes "w_start w < w_end w" and "p \<le> q"
  shows "windowProgress_spec p w \<le> windowProgress_spec q w"
proof -
  have "(p - w_start w) / (w_end w - w_start w) \<le> (q - w_start w) / (w_end w - w_start w)"
    using assms by (simp add: divide_right_mono)
  then show ?thesis
    unfolding windowProgress_spec_def by (rule clamp_mono)
qed

lemma entranceProgress_window: "entranceProgress p = windowProgress_spec p entranceWindow"
  by (simp add: entranceProgress_def windowProgress_spec_def clamp_def entranceWindow_def)

lemma modelProgress_window: "modelProgress p = windowProgress_spec p containerWindow"
  by (simp add: modelProgress_def windowProgress_spec_def clamp_def containerWindow_def)

lemma headerProgress_window: "headerProgress p = windowProgress_spec p header1Window"
  by (simp add: headerProgress_def windowProgress_spec_def clamp_def header1Window_def)

lemma colorProgress_window: "colorProgress p = windowProgress_spec p header2ColorWindow"
  by (simp add: colorProgress_def windowProgress_spec_def clamp_def header2ColorWindow_def
      max_def min_def)

lemma windows_proper:
  "w_start entranceWindow < w_end entranceWindow"
  "w_start containerWindow < w_end containerWindow"
  "w_start header1Window < w_end header1Window"
  "w_start header2ColorWindow < w_end header2ColorWindow"
  by (simp_all add: entranceWindow_def containerWindow_def header1Window_def
      header2ColorWindow_def)

text \<open>
  The outer thresholds of the first header's rule (0.08 and 0.3) lie outside its window
  (0.12 to 0.25), where the clamped sub-progress is already 0 or 1: the rule is the
  window's sub-progress scaled to \<open>-100\<close>, for every progress.
\<close>

lemma header1XPercent_window: "header1XPercent p = - 100 * headerProgress p"
  by (simp add: header1XPercent_def headerProgress_def)

text \<open>
  The second header's slide computes its sub-progress only inside its window; scaled
  to the range from 100 to \<open>-100\<close>, the rule is the window's clamp too.
\<close>

lemma header2XPercent_window:
  "header2XPercent p = 100 - 200 * windowProgress_spec p header2SlideWindow"
  by (simp add: header2XPercent_def windowProgress_spec_def clamp_def header2SlideWindow_def
      Let_def max_def min_def)

text \<open>
  Each sub-progress the main scroll handler derives (entrance, container scale, first
  header, second header's colour) is the clamped, rescaled progress of its window,
  \<open>clamp ((p - start) / (end - start)) 0 1\<close>, each window having start below end; so it
  lies between 0 and 1 and never decreases when the progress grows.
\<close>

lemma main_handler_sub_progress:
  "entranceProgress p = windowProgress_spec p entranceWindow \<and>
   modelProgress p = windowProgress_spec p containerWindow \<and>
   headerProgress p = windowProgress_spec p header1Window \<and>
   colorProgress p = windowProgress_spec p header2ColorWindow \<and>
   (\<forall>w \<in> {entranceWindow, containerWindow, header1Window, header2ColorWindow}.
      w_start w < w_end w) \<and>
   (\<forall>f \<in> {entranceProgress, modelProgress, headerProgress, colorProgress}.
      0 \<le> f p \<and> f p \<le> 1 \<and> (\<forall>q. p \<le> q \<longrightarrow> f p \<le> f q))"
  using windows_proper windowProgress_spec_bounds windowProgress_spec_mono
  by (simp add: entranceProgress_window modelProgress_window headerProgress_window
      colorProgress_window)

text \<open>
  C1. The logo's colour rule is the one rule whose sub-progress is not the clamp of its
  window. Its window runs from 0.2 to 0.28 (start below end) and the rule evaluates
  \<open>transitionProgress\<close> on all of it; at the midpoint 0.24, where the clamp
  \<open>clamp ((p - 0.2) / (0.28 - 0.2)) 0 1\<close> is 1/2, the sub-progress the rule derives is
  above 3, outside the interval from 0 to 1.
\<close>

theorem C1_logo_sub_progress_not_clamped:
  "w_start logoWindow < w_end logoWindow \<and>
   w_start logoWindow \<le> 0.24 \<and> 0.24 \<le> w_end logoWindow \<and>
   logoColor 0.24 = Rgb (round (255 * (1 - transitionProgress 0.24)))
                        (round (255 * (1 - transitionProgress 0.24)))
                        (round (255 * (1 - transitionProgress 0.24))) \<and>
   windowProgress_spec 0.24 logoWindow = 1 / 2 \<and>
   3 < transitionProgress 0.24 \<and>
   \<not> transitionProgress 0.24 \<le> 1 \<and>
   transitionProgress 0.24 \<noteq> windowProgress_spec 0.24 logoWindow"
  by (simp add: logoWindow_def logoColor_def transitionProgress_def windowProgress_spec_def
      clamp_def Let_def)

subsection \<open>Binary64 rounding\<close>

text \<open>Rounding to an integer moves a number by at most one half.\<close>

lemma roundTiesToEven_error: "\<bar>of_int (roundTiesToEven m) - m\<bar> \<le> 1 / 2"
proof -
  have "of_int \<lfloor>m\<rfloor> \<le> m" "m < of_int \<lfloor>m\<rfloor> + 1" by linarith+
  then show ?thesis
    by (auto simp: roundTiesToEven_def Let_def)
qed

text \<open>
  \<open>binade\<close> never overshoots: the power of two it finds is at most \<open>x\<close>, unless it
  ran out of steps on the way down (and then \<open>exponent\<close> takes the subnormal spacing).
\<close>

lemma binade_lower:
  assumes "0 < x"
  shows "2 powi (binade n x e - e) \<le> x \<or> binade n x e - e = - int n"
  using assms
proof (induction n arbitrary: x e)
  case 0
  then show ?case by simp
next
  case (Suc n)
  show ?case
  proof (cases "2 \<le> x")
    case True
    with Suc.prems have "0 < x / 2" by simp
    from Suc.IH [OF this, of "e + 1"]
    have "2 powi (binade n (x / 2) (e + 1) - (e + 1)) \<le> x / 2 \<or>
          binade n (x / 2) (e + 1) - (e + 1) = - int n" .
    then show ?thesis
    proof
      assume "2 powi (binade n (x / 2) (e + 1) - (e + 1)) \<le> x / 2"
      moreover have "(2::real) powi (binade n (x / 2) (e + 1) - e)
          = 2 * 2 powi (binade n (x / 2) (e + 1) - (e + 1))"
        by (simp add: power_int_diff power_int_add)
      ultimately show ?thesis using True by simp
    next
      assume h: "binade n (x / 2) (e + 1) - (e + 1) = - int n"
      then have "binade n (x / 2) (e + 1) - e = 1 - int n" by simp
      moreover have "(2::real) powi (1 - int n) \<le> 2 powi 1"
        by (rule power_int_increasing) simp_all
      ultimately show ?thesis using True by simp
    qed
  next
    case False
    show ?thesis
    proof (cases "x < 1")
      case True
      with Suc.prems have "0 < x * 2" by simp
      from Suc.IH [OF this, of "e - 1"]
      have "2 powi (binade n (x * 2) (e - 1) - (e - 1)) \<le> x * 2 \<or>
            binade n (x * 2) (e - 1) - (e - 1) = - int n" .
      then show ?thesis
      proof
        assume "2 powi (binade n (x * 2) (e - 1) - (e - 1)) \<le> x * 2"
        moreover have "(2::real) powi (binade n (x * 2) (e - 1) - (e - 1))
            = 2 * 2 powi (binade n (x * 2) (e - 1) - e)"
          by (simp add: power_int_diff power_int_add)
        ultimately show ?thesis using True False by simp
      next
        assume "binade n (x * 2) (e - 1) - (e - 1) = - int n"
        then show ?thesis using True False by simp
      qed
    next
      case F2: False
      with False show ?thesis by simp
    qed
  qed
qed

lemma quantum_pos: "0 < quantum x"
  by (simp add: quantum_def)

lemma quantum_le:
  assumes "x \<noteq> 0"
  shows "quantum x \<le> max \<bar>x\<bar> (1 / 2 ^ 1022) / 2 ^ 52"
proof -
  have pos: "0 < \<bar>x\<bar>" using assms by simp
  have "2 powi exponent x \<le> max \<bar>x\<bar> (1 / 2 ^ 1022)"
  proof (cases "binade 1100 \<bar>x\<bar> 0 \<le> - 1022")
    case True
    then have "exponent x = - 1022" by (simp add: exponent_def)
    then show ?thesis by (simp add: power_int_def le_max_iff_disj field_simps)
  next
    case False
    then have e: "exponent x = binade 1100 \<bar>x\<bar> 0" by (simp add: exponent_def)
    from binade_lower [OF pos, of 1100 0] False
    have "2 powi (binade 1100 \<bar>x\<bar> 0) \<le> \<bar>x\<bar>" by auto
    with e show ?thesis by (simp add: le_max_iff_disj)
  qed
  moreover have "quantum x = 2 powi exponent x / 2 ^ 52"
    by (simp add: quantum_def power_int_diff)
  ultimately show ?thesis by (simp add: divide_right_mono)
qed

text \<open>
  The error of one rounding: half a unit in the last place, relative \<open>2^-53\<close>, with
  the absolute floor \<open>2^-1075\<close> of the subnormal range.
\<close>

lemma b64_error: "\<bar>b64 x - x\<bar> \<le> \<bar>x\<bar> / 2 ^ 53 + 1 / 2 ^ 1075"
proof (cases "x = 0")
  case True
  then show ?thesis by (simp add: b64_def)
next
  case False
  let ?q = "quantum x"
  have q: "0 < ?q" by (rule quantum_pos)
  have "b64 x - x = (of_int (roundTiesToEven (x / ?q)) - x / ?q) * ?q"
    using False q by (simp add: b64_def field_simps)
  then have "\<bar>b64 x - x\<bar> = \<bar>of_int (roundTiesToEven (x / ?q)) - x / ?q\<bar> * ?q"
    using q by (simp add: abs_mult)
  also have "\<dots> \<le> 1 / 2 * ?q"
    using roundTiesToEven_error [of "x / ?q"] q by (intro mult_right_mono) simp_all
  also have "\<dots> \<le> 1 / 2 * (max \<bar>x\<bar> (1 / 2 ^ 1022) / 2 ^ 52)"
    using quantum_le [OF False] by simp
  also have "\<dots> \<le> \<bar>x\<bar> / 2 ^ 53 + 1 / 2 ^ 1075"
    by (simp add: max_def field_simps)
  finally show ?thesis .
qed

text \<open>
  For a number within the range of the normal doubles, \<open>exponent\<close> is its binary
  exponent, and \<open>b64\<close> is evaluated by giving that exponent.
\<close>

lemma p2_suc: "(2::real) powi (k + 1) = 2 * 2 powi k"
  by (simp add: power_int_add)

lemma p2_pred: "(2::real) powi (k - 1) = 2 powi k / 2"
  by (simp add: power_int_diff)

lemma binade_bounds:
  assumes "0 < x" and "2 powi (- int n) \<le> x" and "x < 2 powi (int n + 1)"
  shows "2 powi (binade n x e - e) \<le> x \<and> x < 2 powi (binade n x e - e + 1)"
  using assms
proof (induction n arbitrary: x e)
  case 0
  then show ?case by simp
next
  case (Suc n)
  have "- int (Suc n) = - int n - 1" by simp
  then have "(2::real) powi (- int (Suc n)) = 2 powi (- int n) / 2"
    by (simp only: p2_pred)
  with Suc.prems(2) have lo: "2 powi (- int n) / 2 \<le> x" by linarith
  have "int (Suc n) + 1 = int n + 1 + 1" by simp
  then have "(2::real) powi (int (Suc n) + 1) = 2 * 2 powi (int n + 1)"
    by (simp only: p2_suc)
  with Suc.prems(3) have hi: "x < 2 * 2 powi (int n + 1)" by linarith
  have one: "(2::real) powi (- int n) \<le> 1"
    using power_int_increasing [of "- int n" 0 "2::real"] by simp
  have two: "(2::real) \<le> 2 powi (int n + 1)"
    using power_int_increasing [of 1 "int n + 1" "2::real"] by simp
  show ?case
  proof (cases "2 \<le> x")
    case True
    have "2 powi (binade n (x / 2) (e + 1) - (e + 1)) \<le> x / 2 \<and>
          x / 2 < 2 powi (binade n (x / 2) (e + 1) - (e + 1) + 1)"
      using True one hi by (intro Suc.IH) simp_all
    moreover have "binade n (x / 2) (e + 1) - (e + 1) + 1 = binade n (x / 2) (e + 1) - e"
      by simp
    ultimately have "2 powi (binade n (x / 2) (e + 1) - e - 1) \<le> x / 2 \<and>
          x / 2 < 2 powi (binade n (x / 2) (e + 1) - e)"
      by (simp add: algebra_simps)
    then show ?thesis
      using True p2_pred [of "binade n (x / 2) (e + 1) - e"]
        p2_suc [of "binade n (x / 2) (e + 1) - e"]
      by simp
  next
    case False
    show ?thesis
    proof (cases "x < 1")
      case True
      have "2 powi (binade n (x * 2) (e - 1) - (e - 1)) \<le> x * 2 \<and>
            x * 2 < 2 powi (binade n (x * 2) (e - 1) - (e - 1) + 1)"
        using True Suc.prems(1) lo two by (intro Suc.IH) simp_all
      moreover have "binade n (x * 2) (e - 1) - (e - 1) = binade n (x * 2) (e - 1) - e + 1"
        by simp
      ultimately have "2 powi (binade n (x * 2) (e - 1) - e + 1) \<le> x * 2 \<and>
            x * 2 < 2 powi (binade n (x * 2) (e - 1) - e + 1 + 1)"
        by simp
      then show ?thesis
        using True False p2_suc [of "binade n (x * 2) (e - 1) - e"]
          p2_suc [of "binade n (x * 2) (e - 1) - e + 1"]
        by simp
    next
      case F2: False
      with False show ?thesis by simp
    qed
  qed
qed

lemma binade_unique:
  assumes "2 powi a \<le> (x::real)" "x < 2 powi (a + 1)" "2 powi b \<le> x" "x < 2 powi (b + 1)"
  shows "a = b"
proof -
  have "a < b + 1"
  proof (rule ccontr)
    assume "\<not> a < b + 1"
    then have "(2::real) powi (b + 1) \<le> 2 powi a"
      by (intro power_int_increasing) simp_all
    with assms show False by linarith
  qed
  moreover have "b < a + 1"
  proof (rule ccontr)
    assume "\<not> b < a + 1"
    then have "(2::real) powi (a + 1) \<le> 2 powi b"
      by (intro power_int_increasing) simp_all
    with assms show False by linarith
  qed
  ultimately show ?thesis by simp
qed

lemma exponent_eqI:
  assumes "- 1022 \<le> e" and "e \<le> 1023" and "2 powi e \<le> \<bar>x\<bar>" and "\<bar>x\<bar> < 2 powi (e + 1)"
  shows "exponent x = e"
proof -
  have pos: "0 < \<bar>x\<bar>"
    using assms(3) by (smt (verit) zero_less_power_int)
  have "(2::real) powi (- int 1100) \<le> 2 powi e"
    using assms(1) by (intro power_int_increasing) simp_all
  then have lo: "2 powi (- int 1100) \<le> \<bar>x\<bar>" using assms(3) by linarith
  have "(2::real) powi (e + 1) \<le> 2 powi (int 1100 + 1)"
    using assms(2) by (intro power_int_increasing) simp_all
  then have hi: "\<bar>x\<bar> < 2 powi (int 1100 + 1)" using assms(4) by linarith
  from binade_bounds [OF pos lo hi, of 0]
  have "2 powi (binade 1100 \<bar>x\<bar> 0) \<le> \<bar>x\<bar>" "\<bar>x\<bar> < 2 powi (binade 1100 \<bar>x\<bar> 0 + 1)"
    by simp_all
  from binade_unique [OF this assms(3,4)] assms(1) show ?thesis
    by (simp add: exponent_def)
qed

lemma b64_eqI:
  assumes "- 1022 \<le> e" and "e \<le> 1023" and "2 powi e \<le> \<bar>x\<bar>" and "\<bar>x\<bar> < 2 powi (e + 1)"
  shows "b64 x = of_int (roundTiesToEven (x / 2 powi (e - 52))) * 2 powi (e - 52)"
proof -
  have "x \<noteq> 0" using assms(3) by (smt (verit) zero_less_power_int abs_zero)
  then show ?thesis
    by (simp add: b64_def quantum_def exponent_eqI [OF assms])
qed

lemma b64_val:
  assumes "- 1022 \<le> e" and "e \<le> 1023" and "2 powi e \<le> \<bar>x\<bar>" and "\<bar>x\<bar> < 2 powi (e + 1)"
    and "of_int (roundTiesToEven (x / 2 powi (e - 52))) * 2 powi (e - 52) = y"
  shows "b64 x = y"
  using b64_eqI [OF assms(1-4)] assms(5) by simp

lemma b64_zero: "b64 0 = 0"
  by (simp add: b64_def)

text \<open>The doubles nearest to the literals of the mask rule and of the test sequence.\<close>

lemma b64_02: "b64 0.2 = 3602879701896397 / 18014398509481984"
  by (rule b64_val [of "- 3"]) (simp_all add: roundTiesToEven_def Let_def)

lemma b64_028: "b64 0.28 = 1261007895663739 / 4503599627370496"
  by (rule b64_val [of "- 2"]) (simp_all add: roundTiesToEven_def Let_def)

lemma b64_008: "b64 0.08 = 5764607523034235 / 72057594037927936"
  by (rule b64_val [of "- 4"]) (simp_all add: roundTiesToEven_def Let_def)

lemma b64_01: "b64 0.1 = 3602879701896397 / 36028797018963968"
  by (rule b64_val [of "- 4"]) (simp_all add: roundTiesToEven_def Let_def)

lemma b64_024: "b64 0.24 = 1080863910568919 / 4503599627370496"
  by (rule b64_val [of "- 3"]) (simp_all add: roundTiesToEven_def Let_def)

lemma b64_05: "b64 0.5 = 1 / 2"
  by (rule b64_val [of "- 1"]) (simp_all add: roundTiesToEven_def Let_def)

text \<open>The three branches of the mask rule, and its values along the sequence.\<close>

lemma maskSize_below: "progress < b64 0.2 \<Longrightarrow> maskSize progress = 0"
  by (simp only: maskSize_def if_True)

lemma maskSize_above: "progress > b64 0.28 \<Longrightarrow> maskSize progress = 100"
proof -
  assume h: "progress > b64 0.28"
  have "b64 0.2 < b64 0.28" unfolding b64_02 b64_028 by simp
  with h have "\<not> progress < b64 0.2" by linarith
  with h show ?thesis by (simp only: maskSize_def if_True if_False)
qed

lemma maskSize_ramp:
  "\<not> progress < b64 0.2 \<Longrightarrow> \<not> progress > b64 0.28 \<Longrightarrow>
   maskSize progress = b64 (b64 (100 * b64 (progress - b64 0.2)) / b64 0.08)"
  by (simp only: maskSize_def if_False)

lemma maskSize_024: "maskSize (b64 0.24) = 7036874417766397 / 140737488355328"
proof -
  have t1: "b64 (b64 0.24 - b64 0.2) = 720575940379279 / 18014398509481984"
    unfolding b64_024 b64_02
    by (rule b64_val [of "- 5"]) (simp_all add: roundTiesToEven_def Let_def)
  have t2: "b64 (100 * b64 (b64 0.24 - b64 0.2)) = 2251799813685247 / 562949953421312"
    unfolding t1 by (rule b64_val [of 1]) (simp_all add: roundTiesToEven_def Let_def)
  have t3: "b64 (b64 (100 * b64 (b64 0.24 - b64 0.2)) / b64 0.08)
      = 7036874417766397 / 140737488355328"
    unfolding t2 b64_008 by (rule b64_val [of 5]) (simp_all add: roundTiesToEven_def Let_def)
  have "\<not> b64 0.24 < b64 0.2" "\<not> b64 0.24 > b64 0.28"
    unfolding b64_024 b64_02 b64_028 by simp_all
  from maskSize_ramp [OF this] t3 show ?thesis by (simp only:)
qed

lemma maskSize_028: "maskSize (b64 0.28) = 7036874417766401 / 70368744177664"
proof -
  have t1: "b64 (b64 0.28 - b64 0.2) = 1441151880758559 / 18014398509481984"
    unfolding b64_028 b64_02
    by (rule b64_val [of "- 4"]) (simp_all add: roundTiesToEven_def Let_def)
  have t2: "b64 (100 * b64 (b64 0.28 - b64 0.2)) = 4503599627370497 / 562949953421312"
    unfolding t1 by (rule b64_val [of 3]) (simp_all add: roundTiesToEven_def Let_def)
  have t3: "b64 (b64 (100 * b64 (b64 0.28 - b64 0.2)) / b64 0.08)
      = 7036874417766401 / 70368744177664"
    unfolding t2 b64_008 by (rule b64_val [of 6]) (simp_all add: roundTiesToEven_def Let_def)
  have "\<not> b64 0.28 < b64 0.2" "\<not> b64 0.28 > b64 0.28"
    unfolding b64_02 b64_028 by simp_all
  from maskSize_ramp [OF this] t3 show ?thesis by (simp only:)
qed

lemma maskSize_02: "maskSize (b64 0.2) = 0"
proof -
  have "\<not> b64 0.2 < b64 0.2" "\<not> b64 0.2 > b64 0.28"
    unfolding b64_02 b64_028 by simp_all
  from maskSize_ramp [OF this] show ?thesis by (simp add: b64_zero)
qed

lemma maskSize_seq:
  "map maskSize [b64 0, b64 0.1, b64 0.2, b64 0.24, b64 0.28, b64 0.5] =
   [0, 0, 0, 7036874417766397 / 140737488355328, 7036874417766401 / 70368744177664, 100]"
proof -
  have "b64 0 < b64 0.2" "b64 0.1 < b64 0.2" "b64 0.5 > b64 0.28"
    unfolding b64_zero b64_01 b64_02 b64_05 b64_028 by simp_all
  then have "maskSize (b64 0) = 0" "maskSize (b64 0.1) = 0" "maskSize (b64 0.5) = 100"
    by (simp_all only: maskSize_below maskSize_above)
  then show ?thesis
    by (simp only: list.map maskSize_02 maskSize_024 maskSize_028)
qed


text \<open>
  On its ramp the rounded rule stays within \<open>10^-13\<close> of the exact linear ramp: three
  roundings and the rounding of the two literals are all that separates them.
\<close>

lemma b64_error_bound:
  assumes "\<bar>x\<bar> \<le> B"
  shows "\<bar>b64 x - x\<bar> \<le> B / 9007199254740992 + 1 / 100000000000000000000"
proof -
  have "(1::real) / 2 ^ 1075 \<le> 1 / 100000000000000000000" by simp
  moreover have "\<bar>x\<bar> / 9007199254740992 \<le> B / 9007199254740992"
    using assms by (rule divide_right_mono) simp
  moreover have "\<bar>b64 x - x\<bar> \<le> \<bar>x\<bar> / 9007199254740992 + 1 / 2 ^ 1075"
    using b64_error [of x] by simp
  ultimately show ?thesis by linarith
qed

lemma maskSize_ramp_error:
  assumes "\<not> p < b64 0.2" and "\<not> p > b64 0.28"
  shows "\<bar>maskSize p - 100 * (p - 0.2) / 0.08\<bar> \<le> 1 / 10 ^ 13"
proof -
  define a :: real where "a = 3602879701896397 / 18014398509481984"
  define d :: real where "d = 5764607523034235 / 72057594037927936"
  define t1 where "t1 = b64 (p - a)"
  define t2 where "t2 = b64 (100 * t1)"
  define w where "w = t2 / d"
  define t3 where "t3 = b64 w"
  have m: "maskSize p = t3"
    using maskSize_ramp [OF assms]
    by (simp only: t1_def t2_def t3_def w_def a_def d_def b64_02 b64_008)
  have wq: "5764607523034235 * w = 72057594037927936 * t2"
    by (simp add: w_def d_def)
  have ideal: "100 * (p - 0.2) / 0.08 = 1250 * p - 250"
    by simp
  have lo: "a \<le> p" and hi: "p \<le> 1261007895663739 / 4503599627370496"
    using assms unfolding b64_02 b64_028 a_def by simp_all
  have "\<bar>p - a\<bar> \<le> 81 / 1000"
    using lo hi unfolding a_def by linarith
  from b64_error_bound [OF this]
  have e1: "\<bar>t1 - (p - a)\<bar> \<le> 1 / 100000000000000000"
    unfolding t1_def by linarith
  have "\<bar>100 * t1\<bar> \<le> 82 / 10"
    using e1 lo hi unfolding a_def by linarith
  from b64_error_bound [OF this]
  have e2: "\<bar>t2 - 100 * t1\<bar> \<le> 1 / 1000000000000000"
    unfolding t2_def by linarith
  have "\<bar>w\<bar> \<le> 104"
    using e1 e2 wq lo hi unfolding a_def by linarith
  from b64_error_bound [OF this]
  have e3: "\<bar>t3 - w\<bar> \<le> 12 / 1000000000000000"
    unfolding t3_def by linarith
  from e1 e2 e3 wq lo hi
  have "\<bar>t3 - (1250 * p - 250)\<bar> \<le> 1 / 10000000000000"
    unfolding a_def by linarith
  then have fin: "\<bar>t3 - (1250 * p - 250)\<bar> \<le> 1 / 10 ^ 13" by simp
  show ?thesis unfolding m ideal by (rule fin)
qed

subsection \<open>Mask radius and container scale\<close>

text \<open>
  C5, as stated, fails in binary64: at the doubles 0.24 and 0.28 the mask radius is
  \<open>50 - 3 / 2^47\<close> and \<open>100 + 1 / 2^46\<close> (printed 49.99999999999998 and
  100.00000000000001), not 50 and 100. The double 0.28 is not above the literal 0.28,
  so it takes the ramp.
\<close>

theorem C5_mask_sequence_not_exact:
  "maskSize (b64 0.24) \<noteq> 50 \<and> maskSize (b64 0.28) \<noteq> 100 \<and>
   map maskSize [b64 0, b64 0.1, b64 0.2, b64 0.24, b64 0.28, b64 0.5]
     \<noteq> [0, 0, 0, 50, 100, 100]"
  unfolding maskSize_seq maskSize_024 maskSize_028 by simp

text \<open>
  C5, amended. The mask radius is exactly 0 for every progress below 0.2 (up to the
  double nearest to 0.2) and exactly 100 for every progress above the double nearest
  to 0.28. Between these two doubles it is the ramp \<open>(100 * (p - 0.2)) / 0.08\<close>
  evaluated in binary64, which is within \<open>10^-13\<close> of the exact linear ramp. The doubles
  0, 0.1, 0.2, 0.24, 0.28, 0.5 give the radii 0, 0, 0, \<open>50 - 3 / 2^47\<close>,
  \<open>100 + 1 / 2^46\<close>, 100.
\<close>

theorem C5_mask_radius_binary64:
  "(p < 0.2 \<longrightarrow> maskSize p = 0) \<and>
   (p < b64 0.2 \<longrightarrow> maskSize p = 0) \<and>
   (p > b64 0.28 \<longrightarrow> maskSize p = 100) \<and>
   (b64 0.2 \<le> p \<and> p \<le> b64 0.28 \<longrightarrow>
      maskSize p = b64 (b64 (100 * b64 (p - b64 0.2)) / b64 0.08) \<and>
      \<bar>maskSize p - 100 * (p - 0.2) / 0.08\<bar> \<le> 1 / 10 ^ 13) \<and>
   map maskSize [b64 0, b64 0.1, b64 0.2, b64 0.24, b64 0.28, b64 0.5]
     = [0, 0, 0, 50 - 3 / 2 ^ 47, 100 + 1 / 2 ^ 46, 100]"
proof -
  have "(0.2::real) < b64 0.2" unfolding b64_02 by simp
  then have a: "p < 0.2 \<longrightarrow> maskSize p = 0"
    using maskSize_below [of p] by auto
  have b: "p < b64 0.2 \<longrightarrow> maskSize p = 0"
    using maskSize_below by blast
  have c: "p > b64 0.28 \<longrightarrow> maskSize p = 100"
    using maskSize_above by blast
  have d: "b64 0.2 \<le> p \<and> p \<le> b64 0.28 \<longrightarrow>
      maskSize p = b64 (b64 (100 * b64 (p - b64 0.2)) / b64 0.08) \<and>
      \<bar>maskSize p - 100 * (p - 0.2) / 0.08\<bar> \<le> 1 / 10 ^ 13"
    using maskSize_ramp [of p] maskSize_ramp_error [of p] by (simp add: not_less)
  have "(7036874417766397::real) / 140737488355328 = 50 - 3 / 2 ^ 47"
    "(7036874417766401::real) / 70368744177664 = 100 + 1 / 2 ^ 46"
    by simp_all
  then have e: "map maskSize [b64 0, b64 0.1, b64 0.2, b64 0.24, b64 0.28, b64 0.5]
      = [0, 0, 0, 50 - 3 / 2 ^ 47, 100 + 1 / 2 ^ 46, 100]"
    unfolding maskSize_seq by (simp only:)
  from a b c d e show ?thesis by blast
qed

theorem C5_mask_radius_binary64_witness:
  "(0.1::real) < 0.2 \<and> maskSize 0.1 = 0 \<and>
   b64 0.1 < b64 0.2 \<and> maskSize (b64 0.1) = 0 \<and>
   b64 0.5 > b64 0.28 \<and> maskSize (b64 0.5) = 100 \<and>
   b64 0.2 \<le> b64 0.24 \<and> b64 0.24 \<le> b64 0.28 \<and>
   \<bar>maskSize (b64 0.24) - 100 * (b64 0.24 - 0.2) / 0.08\<bar> \<le> 1 / 10 ^ 13"
proof -
  have h1: "(0.1::real) < 0.2" by simp
  have h2: "b64 0.1 < b64 0.2" unfolding b64_01 b64_02 by simp
  have h3: "b64 0.5 > b64 0.28" unfolding b64_05 b64_028 by simp
  have h4: "b64 0.2 \<le> b64 0.24" "b64 0.24 \<le> b64 0.28"
    unfolding b64_02 b64_024 b64_028 by simp_all
  from C5_mask_radius_binary64 [of "0.1"] h1 have r1: "maskSize 0.1 = 0" by blast
  from C5_mask_radius_binary64 [of "b64 0.1"] h2 have r2: "maskSize (b64 0.1) = 0" by blast
  from C5_mask_radius_binary64 [of "b64 0.5"] h3 have r3: "maskSize (b64 0.5) = 100" by blast
  from C5_mask_radius_binary64 [of "b64 0.24"] h4
  have r4: "\<bar>maskSize (b64 0.24) - 100 * (b64 0.24 - 0.2) / 0.08\<bar> \<le> 1 / 10 ^ 13"
    by blast
  from h1 h2 h3 h4 r1 r2 r3 r4 show ?thesis by blast
qed

text \<open>
  C10. The container scale handed to the tweening library is 0.8 for a progress below
  0.15 and 1 from 0.15 on, never a value in between: from 0.15 on, the sub-progress of
  the window 0.06 to 0.10 is already 1, so the ramp \<open>0.8 + 0.2 * modelProgress\<close> is never
  evaluated on its slope.
\<close>

theorem C10_container_scale_two_valued:
  "modelScale p = (if p < 0.15 then 0.8 else 1) \<and>
   modelScale p \<in> {0.8, 1} \<and>
   (0.15 \<le> p \<longrightarrow> modelProgress p = 1)"
  by (simp add: modelScale_def modelProgress_def)

theorem C10_container_scale_witness:
  "(0.15::real) \<le> 0.15 \<and> modelProgress 0.15 = 1 \<and> modelScale 0.15 = 1 \<and>
   modelScale 0.1 = 0.8"
  using C10_container_scale_two_valued [of "0.15"] C10_container_scale_two_valued [of "0.1"]
  by simp

subsection \<open>What one scroll update writes\<close>

lemma onUpdate_model:
  assumes "model s = Some m"
  shows "\<exists>m'. model (onUpdate s p) = Some m' \<and> position m' = position m \<and>
              rotation_z m' = rotation_z m \<and>
              turned m' - currentRotation (onUpdate s p) = turned m - currentRotation s"
  using assms by (simp add: onUpdate_def Let_def)

lemma onUpdate_unloaded:
  assumes "model s = None"
  shows "onUpdate s p = s\<lparr>currentScrollProgress := p\<rparr>"
  using assms by (simp add: onUpdate_def Let_def)

lemma onUpdate_fields:
  "modelSize (onUpdate s p) = modelSize s \<and>
   finalModelPosition (onUpdate s p) = finalModelPosition s \<and>
   cameraZ (onUpdate s p) = cameraZ s \<and>
   currentScrollProgress (onUpdate s p) = p \<and>
   (model (onUpdate s p) = None) = (model s = None)"
  by (simp add: onUpdate_def Let_def split: option.splits)

lemma onUpdate_near_target:
  assumes "model s = Some m"
  shows "\<bar>currentRotation (onUpdate s p) - targetRotation p\<bar> \<le> 0.001"
proof (cases "\<bar>targetRotation p - currentRotation s\<bar> > 0.001")
  case True
  with assms show ?thesis by (simp add: onUpdate_def Let_def)
next
  case False
  then have "\<bar>currentRotation s - targetRotation p\<bar> \<le> 0.001" by linarith
  with assms False show ?thesis by (simp add: onUpdate_def Let_def)
qed

subsection \<open>Model entrance\<close>

lemma demoScene_eq:
  "demoScene =
     \<lparr>model = Some \<lparr>position = \<lparr>vx = - 0.4, vy = - 3.1, vz = 0\<rparr>,
                    rotation_z = degToRad (- 15), turned = 0\<rparr>,
      currentRotation = 0, modelSize = Some demoSize,
      finalModelPosition = \<lparr>vx = - 0.4, vy = - 0.1, vz = 0\<rparr>,
      currentScrollProgress = 0, cameraZ = 6\<rparr>"
  by (simp add: demoScene_def onModelLoaded_def setupModel_def initialState_def demoSize_def
      demoCenter_def horizontalOffset_def verticalOffset_def rotation_desktop_def
      cameraDistance_desktop_def Let_def)

text \<open>
  C6. With the model loaded: the scroll handler's target for the model's height is
  \<open>FinalPosition.y - ModelExtent.y * 1.5\<close> at progress 0 and exactly \<open>FinalPosition.y\<close>
  for every progress at or above the end of the entrance window (0.05); and the layout
  pass \<open>setupModel\<close> places the model \<open>1.5\<close> times its vertical extent below the final
  position it stores.
\<close>

theorem C6_entrance_endpoints:
  assumes "model s = Some m" and "modelSize s = Some sz"
  shows "currentY s 0 = Some (vy (finalModelPosition s) - vy sz * 1.5) \<and>
         (w_end entranceWindow \<le> p \<longrightarrow> currentY s p = Some (vy (finalModelPosition s))) \<and>
         (\<exists>m'. model (setupModel innerWidth center s) = Some m' \<and>
               vy (finalModelPosition (setupModel innerWidth center s)) - vy (position m')
                 = 1.5 * vy sz)"
  using assms
  by (simp add: currentY_def entranceProgress_def entranceWindow_def setupModel_def Let_def)

theorem C6_entrance_endpoints_witness:
  "model demoScene \<noteq> None \<and> modelSize demoScene = Some demoSize \<and>
   currentY demoScene 0 = Some (- 3.1) \<and>
   w_end entranceWindow \<le> 0.05 \<and> currentY demoScene 0.05 = Some (- 0.1) \<and>
   (\<exists>m'. model (setupModel 1024 demoCenter demoScene) = Some m' \<and>
         vy (finalModelPosition (setupModel 1024 demoCenter demoScene)) - vy (position m') = 3)"
proof -
  have m: "model demoScene =
      Some \<lparr>position = \<lparr>vx = - 0.4, vy = - 3.1, vz = 0\<rparr>,
            rotation_z = degToRad (- 15), turned = 0\<rparr>"
    and sz: "modelSize demoScene = Some demoSize"
    by (simp_all add: demoScene_eq)
  have e: "w_end entranceWindow \<le> 0.05" by (simp add: entranceWindow_def)
  have f: "vy (finalModelPosition demoScene) = - 0.1" by (simp add: demoScene_eq)
  from C6_entrance_endpoints [OF m sz, of "0.05" 1024 demoCenter] m sz e f
  show ?thesis by (simp add: demoSize_def)
qed

text \<open>
  C8. The loader's success callback ends with \<open>setupModel()\<close> alone. For a page whose
  scroll progress is already 0.5 when the asset arrives, the model is left at the
  below-viewport start position (height \<open>-3.1\<close> in the concrete scene) although the
  entrance rule gives the final height \<open>-0.1\<close> at that progress; the resize listener,
  which follows \<open>setupModel()\<close> with \<open>applyEntranceAnimationState()\<close>, would put it there.
\<close>

theorem C8_load_leaves_start_position:
  "currentScrollProgress (onModelLoaded demoSize demoCenter 1024 (onUpdate initialState 0.5)) = 0.5 \<and>
   map_option (vy \<circ> position)
     (model (onModelLoaded demoSize demoCenter 1024 (onUpdate initialState 0.5))) = Some (- 3.1) \<and>
   currentY (onModelLoaded demoSize demoCenter 1024 (onUpdate initialState 0.5)) 0.5 = Some (- 0.1) \<and>
   map_option (vy \<circ> position)
     (model (applyEntranceAnimationState
        (onModelLoaded demoSize demoCenter 1024 (onUpdate initialState 0.5)))) = Some (- 0.1)"
  by (simp add: onModelLoaded_def setupModel_def initialState_def demoSize_def
      demoCenter_def horizontalOffset_def verticalOffset_def rotation_desktop_def
      cameraDistance_desktop_def onUpdate_def currentY_def entranceProgress_def
      applyEntranceAnimationState_def Let_def)

text \<open>
  C9. The resize path divides the progress by \<open>0.12\<close>, the scroll path by \<open>0.05\<close>. At
  progress 0.05 in the concrete scene the scroll path asks for the final height \<open>-0.1\<close>
  and the resize path writes \<open>-1.85\<close>.
\<close>

theorem C9_resize_window_differs_from_scroll_window:
  "currentScrollProgress (onUpdate demoScene 0.05) = 0.05 \<and>
   currentY (onUpdate demoScene 0.05) 0.05 = Some (- 0.1) \<and>
   map_option (vy \<circ> position)
     (model (applyEntranceAnimationState (onUpdate demoScene 0.05))) = Some (- 1.85)"
proof -
  have "\<bar>pi * 8 * 0.05\<bar> > 0.001" using pi_ge_two by simp
  then show ?thesis
    by (simp add: demoScene_eq onUpdate_def targetRotation_def currentY_def
        entranceProgress_def applyEntranceAnimationState_def demoSize_def Let_def)
qed

text \<open>
  Where the two paths agree and where they part, for any loaded scene: they agree
  outside the open interval from 0 to 0.12 and for a model of zero height, and nowhere
  else.
\<close>

lemma resize_path_vs_scroll_path:
  assumes "model s = Some m" and "modelSize s = Some sz"
  shows "(map_option (vy \<circ> position) (model (applyEntranceAnimationState (onUpdate s p)))
            = currentY (onUpdate s p) p)
         = (p \<le> 0 \<or> 0.12 \<le> p \<or> vy sz = 0)"
proof -
  obtain m' where m': "model (onUpdate s p) = Some m'"
    using onUpdate_model [OF assms(1)] by blast
  have f: "modelSize (onUpdate s p) = Some sz" "currentScrollProgress (onUpdate s p) = p"
    using assms(2) by (simp_all add: onUpdate_fields)
  have "((1 - max 0 (min 1 (p / 0.12))) * vy sz * 1.5 = (1 - max 0 (min 1 (p / 0.05))) * vy sz * 1.5)
        = (p \<le> 0 \<or> 0.12 \<le> p \<or> vy sz = 0)"
    by (auto simp: max_def min_def)
  then show ?thesis
    using m' f
    by (simp add: applyEntranceAnimationState_def currentY_def entranceProgress_def Let_def)
qed

subsection \<open>Colour ramps\<close>

lemma colorProgress_unit: "0 \<le> colorProgress p \<and> colorProgress p \<le> 1"
  by (simp add: colorProgress_window windowProgress_spec_bounds)

text \<open>
  The second header's colour is the ramp the specification describes: one grey level
  \<open>round (255 * (1 - t))\<close> on all three channels, white up to the window's start, black
  from its end, 128 at its midpoint, never outside 0 to 255.
\<close>

lemma colorProgress_before: "p \<le> 0.18 \<Longrightarrow> colorProgress p = 0"
proof (cases "p < 0.18")
  case True
  then show ?thesis by (simp add: colorProgress_def)
next
  case False
  assume "p \<le> 0.18"
  with False have "p = 0.18" by linarith
  then show ?thesis by (simp add: colorProgress_def)
qed

lemma colorProgress_after: "0.24 \<le> p \<Longrightarrow> colorProgress p = 1"
proof (cases "0.24 < p")
  case True
  then show ?thesis by (simp add: colorProgress_def)
next
  case False
  assume "0.24 \<le> p"
  with False have "p = 0.24" by linarith
  then show ?thesis by (simp add: colorProgress_def)
qed

lemma header2Color_ramp:
  "header2Color p = Rgb (colorValue p) (colorValue p) (colorValue p) \<and>
   colorValue p = round (255 * (1 - windowProgress_spec p header2ColorWindow)) \<and>
   0 \<le> colorValue p \<and> colorValue p \<le> 255 \<and>
   (p \<le> 0.18 \<longrightarrow> colorValue p = 255) \<and>
   (0.24 \<le> p \<longrightarrow> colorValue p = 0) \<and>
   colorValue 0.21 = 128"
proof -
  have "round (0::real) \<le> round (255 * (1 - colorProgress p))"
    using colorProgress_unit [of p] by (intro round_mono) simp
  then have lo: "0 \<le> colorValue p" by (simp add: colorValue_def)
  have "round (255 * (1 - colorProgress p)) \<le> round (255::real)"
    using colorProgress_unit [of p] by (intro round_mono) simp
  then have hi: "colorValue p \<le> 255" by (simp add: colorValue_def)
  have mid: "colorValue 0.21 = 128"
    by (simp add: colorValue_def colorProgress_def round_def)
  have before: "p \<le> 0.18 \<longrightarrow> colorValue p = 255"
    by (simp add: colorValue_def colorProgress_before)
  have after: "0.24 \<le> p \<longrightarrow> colorValue p = 0"
    by (simp add: colorValue_def colorProgress_after)
  have w: "colorValue p = round (255 * (1 - windowProgress_spec p header2ColorWindow))"
    by (simp only: colorValue_def colorProgress_window)
  from lo hi mid before after w show ?thesis
    by (simp only: header2Color_def simp_thms)
qed

text \<open>
  The logo's ramp reaches black at 0.21 and keeps falling for the rest of its window:
  from 0.212 to 0.28 every channel is negative.
\<close>

lemma logoColor_negative:
  assumes "0.212 \<le> p" and "p \<le> 0.28"
  shows "\<exists>v < 0. logoColor p = Rgb v v v"
proof -
  have "255 * (1 - transitionProgress p) \<le> - 51"
    using assms by (simp add: transitionProgress_def)
  then have "round (255 * (1 - transitionProgress p)) \<le> round (- 51 :: real)"
    by (rule round_mono)
  then have "round (255 * (1 - transitionProgress p)) < 0" by simp
  then show ?thesis
    using assms by (simp add: logoColor_def Let_def)
qed

text \<open>
  C4. The logo's colour transition over its window 0.2 to 0.28 divides by \<open>0.01\<close>
  where the window is \<open>0.08\<close> wide: its sub-progress is 4 at the midpoint 0.24 and 8 at
  the end 0.28, and the channels are \<open>-765\<close> and \<open>-1785\<close> there, not 128 (or 127) and 0.
  The second header's ramp, at its own midpoint 0.21, gives 128.
\<close>

theorem C4_logo_color_out_of_range:
  "transitionProgress 0.24 = 4 \<and>
   logoColor 0.24 = Rgb (- 765) (- 765) (- 765) \<and>
   transitionProgress 0.28 = 8 \<and>
   logoColor 0.28 = Rgb (- 1785) (- 1785) (- 1785) \<and>
   header2Color 0.21 = Rgb 128 128 128"
  by (simp add: logoColor_def transitionProgress_def header2Color_def colorValue_def
      colorProgress_def round_def)

subsection \<open>Tooltips\<close>

lemma tooltip_onUpdate_overwrites:
  "tooltip_onUpdate p1 (tooltip_onUpdate p2 t) = tooltip_onUpdate p1 t"
  by (simp add: tooltip_onUpdate_def play_def reverse_def Let_def)

text \<open>
  C7, as stated, fails on js/scene.js: from a freshly created timeline, an update at
  0.65, the middle of the update handler's window 0.45 to 0.85, leaves the head at 0,
  and a refresh at 0.4, the middle of the refresh handler's window 0.35 to 0.45, puts
  it at 1; the clamped sub-progress is 1/2 in both cases.
\<close>

theorem C7_tooltip_head_not_scrubbed:
  "head (tooltip_onUpdate 0.65 newTimeline)
     \<noteq> windowProgress_spec 0.65 \<lparr>w_start = 0.45, w_end = 0.85\<rparr> \<and>
   head (tooltip_onRefresh 0.4 newTimeline)
     \<noteq> windowProgress_spec 0.4 \<lparr>w_start = 0.35, w_end = 0.45\<rparr> \<and>
   windowProgress_spec 0.65 \<lparr>w_start = 0.45, w_end = 0.85\<rparr> = 1 / 2 \<and>
   head (tooltip_onUpdate 0.65 newTimeline) = 0 \<and>
   windowProgress_spec 0.4 \<lparr>w_start = 0.35, w_end = 0.45\<rparr> = 1 / 2 \<and>
   head (tooltip_onRefresh 0.4 newTimeline) = 1"
  by (simp add: windowProgress_spec_def clamp_def tooltip_onUpdate_def tooltip_onRefresh_def
      play_def reverse_def set_progress_def newTimeline_def Let_def)

text \<open>
  C7, amended. In js/scene.js a tooltip's update handler never moves the head: it
  starts playback forwards when the progress is inside 0.45 to 0.85 and backwards
  otherwise. Its refresh handler sets the head to 0 or to 1, never to a value in
  between, and leaves the playback mode alone. The directly coupled scrub is what the
  earlier copy of the script does: for each tooltip's trigger, the head is set to the
  clamped sub-progress of the window from the trigger to the trigger plus 0.1.
\<close>

theorem C7_tooltip_play_reverse_amended:
  "head (tooltip_onUpdate p t) = head t \<and>
   playback (tooltip_onUpdate p t) = (if 0.45 \<le> p \<and> p \<le> 0.85 then Playing else Reversing) \<and>
   head (tooltip_onRefresh p t) \<in> {0, 1} \<and>
   playback (tooltip_onRefresh p t) = playback t \<and>
   (\<forall>trigger \<in> set tooltipTriggers.
      map_option head (scrubTooltip trigger p (Some t))
        = Some (windowProgress_spec p \<lparr>w_start = trigger, w_end = trigger + 0.1\<rparr>))"
  by (simp add: tooltip_onUpdate_def tooltip_onRefresh_def play_def reverse_def
      set_progress_def tooltipTriggers_def scrubTooltip_def windowProgress_spec_def
      clamp_def Let_def max_def min_def)

theorem C7_tooltip_amended_witness:
  "head (tooltip_onUpdate 0.65 newTimeline) = 0 \<and>
   playback (tooltip_onUpdate 0.65 newTimeline) = Playing \<and>
   0.45 \<in> set tooltipTriggers \<and>
   map_option head (scrubTooltip 0.45 0.5 (Some newTimeline)) = Some (1 / 2)"
proof -
  have h: "0.45 \<in> set tooltipTriggers" by (simp add: tooltipTriggers_def)
  note a = C7_tooltip_play_reverse_amended [of "0.65" newTimeline]
  note b = C7_tooltip_play_reverse_amended [of "0.5" newTimeline]
  from b h have "map_option head (scrubTooltip 0.45 0.5 (Some newTimeline))
      = Some (windowProgress_spec 0.5 \<lparr>w_start = 0.45, w_end = 0.45 + 0.1\<rparr>)"
    by blast
  then have "map_option head (scrubTooltip 0.45 0.5 (Some newTimeline)) = Some (1 / 2)"
    by (simp add: windowProgress_spec_def clamp_def)
  with a h show ?thesis by (simp add: newTimeline_def)
qed

subsection \<open>Rotation\<close>

lemma deliver_append: "deliver s (ps @ qs) = deliver (deliver s ps) qs"
  by (induction ps arbitrary: s) simp_all

text \<open>
  Rule by rule, the handler keeps the model loaded, leaves its position alone, and
  keeps the applied angle and the accumulator in step: their difference never changes.
\<close>

lemma deliver_model:
  assumes "model s = Some m"
  shows "\<exists>m'. model (deliver s ps) = Some m' \<and> position m' = position m \<and>
              rotation_z m' = rotation_z m \<and>
              turned m' - currentRotation (deliver s ps) = turned m - currentRotation s"
  using assms
proof (induction ps arbitrary: s m)
  case Nil
  then show ?case by simp
next
  case (Cons p ps)
  from onUpdate_model [OF Cons.prems, of p] obtain m1 where
    m1: "model (onUpdate s p) = Some m1" "position m1 = position m"
      "rotation_z m1 = rotation_z m"
      "turned m1 - currentRotation (onUpdate s p) = turned m - currentRotation s"
    by blast
  from Cons.IH [OF m1(1)] m1 show ?case by auto
qed

lemma deliver_last_near_target:
  assumes "model s = Some m"
  shows "\<bar>currentRotation (deliver s (ps @ [p])) - targetRotation p\<bar> \<le> 0.001"
proof -
  from deliver_model [OF assms, of ps] obtain m' where "model (deliver s ps) = Some m'"
    by blast
  from onUpdate_near_target [OF this, of p] show ?thesis
    by (simp add: deliver_append)
qed

text \<open>
  The deltas telescope: whatever updates came before, once progress 1 has been
  delivered the applied angle is within the gate's \<open>0.001\<close> of \<open>8 * pi\<close> (for a model
  loaded before the run, its accumulator in step with its angle).
\<close>

lemma rotation_path_independent:
  assumes "model s = Some m" and "turned m = currentRotation s"
  shows "\<exists>m'. model (deliver s (ps @ [1])) = Some m' \<and> \<bar>turned m' - 8 * pi\<bar> \<le> 0.001"
proof -
  from deliver_model [OF assms(1), of "ps @ [1]"] obtain m' where
    m': "model (deliver s (ps @ [1])) = Some m'"
      "turned m' - currentRotation (deliver s (ps @ [1])) = turned m - currentRotation s"
    by blast
  from deliver_last_near_target [OF assms(1), of ps 1]
  have "\<bar>currentRotation (deliver s (ps @ [1])) - 8 * pi\<bar> \<le> 0.001"
    by (simp add: targetRotation_def mult.commute)
  with m' assms(2) show ?thesis by simp
qed

text \<open>
  C2. One jump to progress 1 turns the loaded model by \<open>pi * 8\<close>, which is four full
  turns of \<open>2 * pi\<close>, not eight.
\<close>

theorem C2_full_scroll_is_four_turns:
  "targetRotation 1 = 4 * (2 * pi) \<and>
   currentRotation (deliver demoScene [1]) = 4 * (2 * pi) \<and>
   map_option turned (model (deliver demoScene [1])) = Some (4 * (2 * pi)) \<and>
   map_option turned (model (deliver demoScene [1])) \<noteq> Some (8 * (2 * pi))"
proof -
  have "1 < 8000 * pi" using pi_ge_two by linarith
  then show ?thesis
    by (simp add: demoScene_eq onUpdate_def targetRotation_def Let_def)
qed

subsection \<open>Replaying progress values\<close>











text \<open>
  The enter and leave callbacks make the command depend on the crossing. At progress
  0.9, outside the update handler's window: when the library calls \<open>onUpdate\<close> and then
  \<open>onEnter\<close> (the range is entered with this update), the timeline is left playing;
  when it calls \<open>onUpdate\<close> alone (the range was entered earlier, here at 0.95), the
  timeline is left reversing.
\<close>

lemma tooltip_command_depends_on_crossing:
  "playback (tooltip_dispatch [OnUpdate, OnEnter] 0.9 newTimeline) = Playing \<and>
   playback (tooltip_dispatch [OnUpdate] 0.9
      (tooltip_dispatch [OnUpdate, OnEnter] 0.95 newTimeline)) = Reversing"
  by (simp add: tooltip_onUpdate_def tooltip_onEnter_def play_def reverse_def
      newTimeline_def Let_def)




end
